theory Spec2Isabelle
  imports Main
begin

section \<open>Errors and strings\<close>

text \<open>
  Both files raise with \<^verbatim>\<open>throw new Error(message)\<close> only. An error is modelled by its
  message; a function that may throw returns \<open>error + 'a\<close>, with \<open>Inl\<close> for the throw.

  A JavaScript string is modelled as a \<open>string\<close> (a list of \<open>char\<close>); \<open>length\<close> plays
  the role of \<^verbatim>\<open>.length\<close>, one \<open>char\<close> standing for one code unit.
\<close>

datatype error = Error string

text \<open>
  Template literals print a number in decimal: \<^verbatim>\<open>${tag.length}\<close>. The argument is a
  length, so it is a natural number.
\<close>

fun digits :: "nat \<Rightarrow> string" where
  "digits n =
     (if n < 10 then [''0123456789'' ! n]
      else digits (n div 10) @ [''0123456789'' ! (n mod 10)])"

declare digits.simps [simp del]

section \<open>The regular expression of \<^verbatim>\<open>validateTag\<close>\<close>

text \<open>
  \<^verbatim>\<open>/^[^-.][a-zA-Z0-9-_.]+$/\<close> is anchored at both ends and is a sequence of two
  character classes, the second under \<^verbatim>\<open>+\<close>. A class is a list of ranges (a single
  character \<open>c\<close> is the range \<open>(c, c)\<close>), possibly negated with \<^verbatim>\<open>^\<close>. In the second
  class the \<^verbatim>\<open>-\<close> after the range \<^verbatim>\<open>0-9\<close> is a literal dash. Without the \<^verbatim>\<open>m\<close> flag
  \<^verbatim>\<open>$\<close> matches at the very end of the input only, and a negated class matches any
  code unit that is not listed, line terminators included.
\<close>

datatype char_class = OneOf "(char \<times> char) list" | NoneOf "(char \<times> char) list"

definition in_ranges :: "(char \<times> char) list \<Rightarrow> char \<Rightarrow> bool" where
  "in_ranges rs c =
     list_ex (\<lambda>(lo, hi). (of_char lo :: nat) \<le> of_char c \<and> (of_char c :: nat) \<le> of_char hi) rs"

fun class_matches :: "char_class \<Rightarrow> char \<Rightarrow> bool" where
  "class_matches (OneOf rs) c = in_ranges rs c"
| "class_matches (NoneOf rs) c = (\<not> in_ranges rs c)"

datatype quantifier = Once | Plus

text \<open>
  \<open>regex_test r s\<close> is \<^verbatim>\<open>/^r$/.test(s)\<close> for a sequence \<open>r\<close> of quantified classes:
  the whole of \<open>s\<close> has to be consumed. Under \<open>Plus\<close> the class takes one character and
  then either goes on taking or hands over to the rest of the pattern.
\<close>

fun regex_test :: "(char_class \<times> quantifier) list \<Rightarrow> string \<Rightarrow> bool" where
  "regex_test [] s = (s = [])"
| "regex_test ((k, q) # r) [] = False"
| "regex_test ((k, Once) # r) (c # cs) = (class_matches k c \<and> regex_test r cs)"
| "regex_test ((k, Plus) # r) (c # cs) =
     (class_matches k c \<and> (regex_test ((k, Plus) # r) cs \<or> regex_test r cs))"

definition tag_first :: char_class where
  "tag_first = NoneOf [(CHR ''-'', CHR ''-''), (CHR ''.'', CHR ''.'')]"

definition tag_rest :: char_class where
  "tag_rest = OneOf [(CHR ''a'', CHR ''z''), (CHR ''A'', CHR ''Z''), (CHR ''0'', CHR ''9''),
     (CHR ''-'', CHR ''-''), (CHR ''_'', CHR ''_''), (CHR ''.'', CHR ''.'')]"

definition tag_pattern :: "(char_class \<times> quantifier) list" where
  "tag_pattern = [(tag_first, Once), (tag_rest, Plus)]"

section \<open>destination.ts: the tag validator\<close>

definition too_long_message :: "string \<Rightarrow> string" where
  "too_long_message t =
     ''Invalid tag: tags may contain a maximum of 128 characters; your tag '' @ t @
     '' has '' @ digits (length t) @ '' characters''"

definition invalid_characters_message :: "string \<Rightarrow> string" where
  "invalid_characters_message t =
     ''Invalid tag: tags must contain alphanumeric characters and '-' '_' '.' only and must not begin with '.' or '-'; your tag was '' @ t"

definition validateTag :: "string \<Rightarrow> error + unit" where
  "validateTag t =
     (if length t > 128 then Inl (Error (too_long_message t))
      else if \<not> regex_test tag_pattern t then Inl (Error (invalid_characters_message t))
      else Inr ())"

text \<open>
  The alphabet \<^verbatim>\<open>[A-Za-z0-9_.-]\<close> and the validity of a tag as the specification words
  them; they are compared with the code below and are not part of its model.
\<close>

definition tag_alphabet :: string where
  "tag_alphabet =
     ''ABCDEFGHIJKLMNOPQRSTUVWXYZabcdefghijklmnopqrstuvwxyz0123456789_.-''"

definition valid_tag :: "string \<Rightarrow> bool" where
  "valid_tag t =
     (1 \<le> length t \<and> length t \<le> 128 \<and>
      (case t of [] \<Rightarrow> True | c # cs \<Rightarrow> c \<noteq> CHR ''-'' \<and> c \<noteq> CHR ''.'') \<and>
      list_all (\<lambda>c. c \<in> set tag_alphabet) t)"

section \<open>source.ts: the configuration records\<close>

datatype LoginType = ECR | EXTERNALECR

record LoginConfig =
  loginCommand :: string
  loginType :: LoginType
  region :: "string option"

text \<open>
  \<open>imageTag\<close> is declared \<^verbatim>\<open>string\<close>, but the expression that fills it can evaluate to
  \<^verbatim>\<open>undefined\<close> at run time (an array read past the end, see \<open>Fn_select\<close>); \<open>None\<close> is
  that value. For the optional fields \<open>region\<close> and \<open>destinationTag\<close>, \<open>None\<close> is the
  absent field.
\<close>

record SourceConfig =
  imageUri :: string
  imageTag :: "string option"
  loginConfig :: LoginConfig

record SourceContext =
  handlerRole :: string

section \<open>The collaborators of aws-cdk-lib\<close>

text \<open>
  The library is not part of the repository; what the two files use of it is taken as
  data. A grantable identity is named by a string. An \<^verbatim>\<open>ecr.IRepository\<close> carries the
  values the code reads (\<^verbatim>\<open>repositoryUri\<close>, \<^verbatim>\<open>env.account\<close>, \<^verbatim>\<open>env.region\<close>) and its
  method \<^verbatim>\<open>repositoryUriForTag(tag?)\<close> as a function of the optional tag.
\<close>

record IRepository =
  repositoryUri :: string
  env_account :: string
  env_region :: string
  repositoryUriForTag :: "string option \<Rightarrow> string"

record DockerImageAsset =
  repository :: IRepository
  imageUri :: string

text \<open>
  A scope gives \<^verbatim>\<open>Stack.of(scope).account\<close> and \<^verbatim>\<open>Stack.of(scope).region\<close>, and the asset
  that \<^verbatim>\<open>new ecr_assets.DockerImageAsset(scope, 'asset', {directory})\<close> yields for a
  directory. The packaging itself (and whatever the library may raise while it builds
  or registers the asset) lies outside the two files and is not modelled.
\<close>

record Construct =
  stack_account :: string
  stack_region :: string
  newDockerImageAsset :: "string \<Rightarrow> DockerImageAsset"

text \<open>
  The permission grants are the only effect of the code on the outside. The state is
  the list of grants issued so far, oldest first; a repository is named in it by its
  URI.
\<close>

datatype grant = GrantPull string string | GrantPullPush string string

type_synonym world = "grant list"

definition grantPull :: "IRepository \<Rightarrow> string \<Rightarrow> world \<Rightarrow> world" where
  "grantPull repo role w = w @ [GrantPull (repositoryUri repo) role]"

definition grantPullPush :: "IRepository \<Rightarrow> string \<Rightarrow> world \<Rightarrow> world" where
  "grantPullPush repo role w = w @ [GrantPullPush (repositoryUri repo) role]"

text \<open>
  \<^verbatim>\<open>Fn.split(':', s)\<close> on a string is \<^verbatim>\<open>s.split(':')\<close>: the pieces between the
  delimiters, empty pieces kept, so that the empty string gives one empty piece.
  \<^verbatim>\<open>Fn.select(i, xs)\<close> is \<^verbatim>\<open>xs[i]\<close>, which is \<^verbatim>\<open>undefined\<close> past the end of the array.
  On a deploy-time token the two build the intrinsic functions of the same meaning
  instead, evaluated when the template is deployed; the model is the value selected,
  and \<open>None\<close> says that there is none. Neither function throws on these arguments.
\<close>

fun Fn_split :: "char \<Rightarrow> string \<Rightarrow> string list" where
  "Fn_split d [] = [[]]"
| "Fn_split d (c # cs) =
     (if c = d then [] # Fn_split d cs
      else (case Fn_split d cs of [] \<Rightarrow> [[c]] | p # ps \<Rightarrow> (c # p) # ps))"

definition Fn_select :: "nat \<Rightarrow> 'a list \<Rightarrow> 'a option" where
  "Fn_select i xs = (if i < length xs then Some (xs ! i) else None)"

section \<open>source.ts: the sources\<close>

text \<open>
  The template literal of the login command is written out four times in the two
  files, letter for letter the same; it is named once here.
\<close>

definition ecrLoginConfig :: "string \<Rightarrow> string \<Rightarrow> LoginConfig" where
  "ecrLoginConfig accountId reg =
     \<lparr>loginCommand =
        ''aws ecr get-login-password --region '' @ reg @
        '' | docker login --username AWS --password-stdin '' @ accountId @
        ''.dkr.ecr.'' @ reg @ ''.amazonaws.com'',
      loginType = ECR,
      region = Some reg\<rparr>"

text \<open>
  The three classes with their private fields. \<open>AssetSource\<close> keeps the repository
  of the asset and the tag it selected in its constructor.
\<close>

datatype Source =
    DirectorySource string
  | EcrSource IRepository string
  | AssetSource IRepository "string option"

definition Source_directory :: "string \<Rightarrow> Source" where
  "Source_directory path = DirectorySource path"

definition Source_ecr :: "IRepository \<Rightarrow> string \<Rightarrow> Source" where
  "Source_ecr repo t = EcrSource repo t"

definition Source_asset :: "DockerImageAsset \<Rightarrow> Source" where
  "Source_asset asset =
     AssetSource (repository asset)
       (Fn_select 1 (Fn_split (CHR '':'') (DockerImageAsset.imageUri asset)))"

fun Source_bind ::
  "Source \<Rightarrow> Construct \<Rightarrow> SourceContext \<Rightarrow> world \<Rightarrow> (error + SourceConfig) \<times> world" where
  "Source_bind (DirectorySource path) scope ctx w =
     (let accountId = stack_account scope;
          reg = stack_region scope;
          asset = newDockerImageAsset scope path;
          w' = grantPull (repository asset) (handlerRole ctx) w
      in (Inr \<lparr>SourceConfig.imageUri = DockerImageAsset.imageUri asset,
               imageTag = Fn_select 1 (Fn_split (CHR '':'') (DockerImageAsset.imageUri asset)),
               loginConfig = ecrLoginConfig accountId reg\<rparr>, w'))"
| "Source_bind (EcrSource repo t) scope ctx w =
     (let accountId = env_account repo;
          reg = env_region repo;
          w' = grantPull repo (handlerRole ctx) w
      in (Inr \<lparr>SourceConfig.imageUri = repositoryUriForTag repo (Some t),
               imageTag = Some t,
               loginConfig = ecrLoginConfig accountId reg\<rparr>, w'))"
| "Source_bind (AssetSource repo t) scope ctx w =
     (let accountId = stack_account scope;
          reg = stack_region scope;
          w' = grantPull repo (handlerRole ctx) w
      in (Inr \<lparr>SourceConfig.imageUri = repositoryUriForTag repo t,
               imageTag = t,
               loginConfig = ecrLoginConfig accountId reg\<rparr>, w'))"

section \<open>destination.ts: the destination\<close>

record DestinationConfig =
  destinationUri :: string
  loginConfig :: LoginConfig
  destinationTag :: "string option"

record EcrSourceOptions =
  tag :: "string option"

text \<open>\<^verbatim>\<open>options?.tag\<close>: \<^verbatim>\<open>undefined\<close> when the options or the field are missing.\<close>

definition options_tag :: "EcrSourceOptions option \<Rightarrow> string option" where
  "options_tag opts = (case opts of None \<Rightarrow> None | Some ops \<Rightarrow> tag ops)"

datatype Destination = EcrDestination IRepository "EcrSourceOptions option"

text \<open>
  The constructor: the field \<^verbatim>\<open>options\<close> is set only when a tag is given and has
  passed \<^verbatim>\<open>validateTag\<close>, whose exception leaves the constructor.
\<close>

definition Destination_ecr :: "IRepository \<Rightarrow> EcrSourceOptions option \<Rightarrow> error + Destination" where
  "Destination_ecr repo opts =
     (case options_tag opts of
        None \<Rightarrow> Inr (EcrDestination repo None)
      | Some t \<Rightarrow>
          (case validateTag t of
             Inl e \<Rightarrow> Inl e
           | Inr u \<Rightarrow> Inr (EcrDestination repo opts)))"

fun Destination_bind ::
  "Destination \<Rightarrow> string \<Rightarrow> world \<Rightarrow> (error + DestinationConfig) \<times> world" where
  "Destination_bind (EcrDestination repo opts) role w =
     (let accountId = env_account repo;
          reg = env_region repo;
          w' = grantPullPush repo role w
      in (Inr \<lparr>destinationUri = repositoryUri repo,
               loginConfig = ecrLoginConfig accountId reg,
               destinationTag = options_tag opts\<rparr>, w'))"

text \<open>
  The caller's sequence \<^verbatim>\<open>Destination.ecr(repository, options).bind(role)\<close>: an
  exception of the constructor propagates, and \<^verbatim>\<open>bind\<close> is not reached.
\<close>

definition Destination_ecr_bind ::
  "IRepository \<Rightarrow> EcrSourceOptions option \<Rightarrow> string \<Rightarrow> world \<Rightarrow> (error + DestinationConfig) \<times> world" where
  "Destination_ecr_bind repo opts role w =
     (case Destination_ecr repo opts of
        Inl e \<Rightarrow> (Inl e, w)
      | Inr d \<Rightarrow> Destination_bind d role w)"

section \<open>Values for the examples\<close>

text \<open>
  \<open>after_last_colon\<close> is the extraction the specification asks for, the part of a
  URI after its last \<^verbatim>\<open>:\<close>; it is compared with what the code selects. The other
  constants are the concrete inputs at which the theorems below are evaluated: the URI
  with a port of the specification, a repository whose \<^verbatim>\<open>repositoryUriForTag\<close> appends
  \<^verbatim>\<open>:tag\<close> when a tag is given, a scope whose packaging step yields an asset with a
  given URI, and a handler role.
\<close>

definition after_last_colon :: "string \<Rightarrow> string" where
  "after_last_colon u = rev (takeWhile (\<lambda>c. c \<noteq> CHR '':'') (rev u))"

definition port_uri :: string where
  "port_uri = ''registry.example.com:5000/repo/image:v1.2.3''"

definition example_uriForTag :: "string option \<Rightarrow> string" where
  "example_uriForTag t =
     (case t of
        None \<Rightarrow> ''123456789012.dkr.ecr.us-east-1.amazonaws.com/app''
      | Some x \<Rightarrow> ''123456789012.dkr.ecr.us-east-1.amazonaws.com/app:'' @ x)"

definition example_repository :: IRepository where
  "example_repository =
     \<lparr>repositoryUri = ''123456789012.dkr.ecr.us-east-1.amazonaws.com/app'',
      env_account = ''123456789012'',
      env_region = ''us-east-1'',
      repositoryUriForTag = example_uriForTag\<rparr>"

definition example_asset :: "string \<Rightarrow> DockerImageAsset" where
  "example_asset u = \<lparr>repository = example_repository, imageUri = u\<rparr>"

definition example_scope :: "string \<Rightarrow> Construct" where
  "example_scope u =
     \<lparr>stack_account = ''123456789012'',
      stack_region = ''us-east-1'',
      newDockerImageAsset = (\<lambda>path. example_asset u)\<rparr>"

definition example_context :: SourceContext where
  "example_context = \<lparr>handlerRole = ''handler''\<rparr>"

section \<open>Facts about the pattern\<close>

lemma regex_test_plus_last:
  "regex_test [(k, Plus)] s = (s \<noteq> [] \<and> list_all (class_matches k) s)"
proof (induction s)
  case Nil
  show ?case by simp
next
  case (Cons c cs)
  then show ?case
    by (cases cs) auto
qed

lemma regex_test_tag_pattern:
  "regex_test tag_pattern t =
     (\<exists>c cs. t = c # cs \<and> class_matches tag_first c \<and> cs \<noteq> [] \<and> list_all (class_matches tag_rest) cs)"
  by (cases t) (simp_all add: tag_pattern_def regex_test_plus_last)

lemma tag_first_iff: "class_matches tag_first c = (c \<noteq> CHR ''-'' \<and> c \<noteq> CHR ''.'')"
proof -
  define n :: nat where "n = of_char c"
  have inj: "\<And>d. (c = d) = (n = of_char d)" by (simp add: n_def)
  have "class_matches tag_first c = (\<not> (45 \<le> n \<and> n \<le> 45 \<or> 46 \<le> n \<and> n \<le> 46))"
    unfolding tag_first_def by (simp add: in_ranges_def flip: n_def)
  also have "\<dots> = (c \<noteq> CHR ''-'' \<and> c \<noteq> CHR ''.'')"
    unfolding inj by (simp; arith)
  finally show ?thesis .
qed

lemma tag_rest_iff: "class_matches tag_rest c = (c \<in> set tag_alphabet)"
proof -
  define n :: nat where "n = of_char c"
  have inj: "\<And>d. (c = d) = (n = of_char d)" by (simp add: n_def)
  have "class_matches tag_rest c =
      (97 \<le> n \<and> n \<le> 122 \<or> 65 \<le> n \<and> n \<le> 90 \<or> 48 \<le> n \<and> n \<le> 57 \<or>
       n = 45 \<or> n = 95 \<or> n = 46)"
    unfolding tag_rest_def by (simp add: in_ranges_def flip: n_def; arith)
  also have "\<dots> = (c \<in> set tag_alphabet)"
    unfolding tag_alphabet_def by (simp add: inj; arith)
  finally show ?thesis .
qed

lemma regex_test_tag_pattern_iff:
  "regex_test tag_pattern t =
     (\<exists>c cs. t = c # cs \<and> c \<noteq> CHR ''-'' \<and> c \<noteq> CHR ''.'' \<and> cs \<noteq> [] \<and>
        list_all (\<lambda>x. x \<in> set tag_alphabet) cs)"
proof -
  have "class_matches tag_rest = (\<lambda>x. x \<in> set tag_alphabet)"
    by (rule ext) (rule tag_rest_iff)
  then show ?thesis
    by (simp add: regex_test_tag_pattern tag_first_iff)
qed

lemma messages_differ: "too_long_message t \<noteq> invalid_characters_message u"
proof
  assume "too_long_message t = invalid_characters_message u"
  then have "take 20 (too_long_message t) = take 20 (invalid_characters_message u)"
    by simp
  then show False
    by (simp add: too_long_message_def invalid_characters_message_def)
qed

section \<open>Facts about splitting\<close>

lemma Fn_split_no_delimiter: "d \<notin> set a \<Longrightarrow> Fn_split d a = [a]"
  by (induction a) auto

lemma Fn_split_first: "d \<notin> set a \<Longrightarrow> Fn_split d (a @ d # b) = a # Fn_split d b"
  by (induction a) auto

lemma after_last_colon_append:
  "CHR '':'' \<notin> set b \<Longrightarrow> after_last_colon (a @ CHR '':'' # b) = b"
proof -
  assume "CHR '':'' \<notin> set b"
  then have "takeWhile (\<lambda>c. c \<noteq> CHR '':'') (rev b @ CHR '':'' # rev a) = rev b"
    by (subst takeWhile_append2) auto
  then show ?thesis
    by (simp add: after_last_colon_def)
qed

section \<open>The tag validator\<close>

lemma validateTag_accepts_valid_longer:
  "valid_tag t \<Longrightarrow> 2 \<le> length t \<Longrightarrow> validateTag t = Inr ()"
  by (cases t) (auto simp: valid_tag_def validateTag_def regex_test_tag_pattern_iff)

text \<open>
  Claim C10. \<^verbatim>\<open>validateTag\<close> returns without an error exactly when the tag has at most
  128 characters and matches \<^verbatim>\<open>/^[^-.][a-zA-Z0-9-_.]+$/\<close>. The pattern asks for a first
  character other than \<^verbatim>\<open>-\<close> and \<^verbatim>\<open>.\<close> and then for one or more characters of the
  alphabet; only the characters after the first are held to the alphabet. So every tag
  of length 0 or 1 is rejected, \<^verbatim>\<open>"a"\<close> among them, and \<^verbatim>\<open>"!abc"\<close> is accepted.
\<close>

theorem validateTag_accepts_iff_pattern:
  "(validateTag t = Inr ()) = (length t \<le> 128 \<and> regex_test tag_pattern t) \<and>
   regex_test tag_pattern t =
     (\<exists>c cs. t = c # cs \<and> c \<noteq> CHR ''-'' \<and> c \<noteq> CHR ''.'' \<and> cs \<noteq> [] \<and>
        (\<forall>x\<in>set cs. x \<in> set tag_alphabet)) \<and>
   (length t \<le> 1 \<longrightarrow> validateTag t = Inl (Error (invalid_characters_message t))) \<and>
   validateTag ''a'' = Inl (Error (invalid_characters_message ''a'')) \<and>
   validateTag ''!abc'' = Inr ()"
proof -
  have accept: "(validateTag t = Inr ()) = (length t \<le> 128 \<and> regex_test tag_pattern t)"
    by (simp add: validateTag_def)
  have pattern: "regex_test tag_pattern t =
     (\<exists>c cs. t = c # cs \<and> c \<noteq> CHR ''-'' \<and> c \<noteq> CHR ''.'' \<and> cs \<noteq> [] \<and>
        (\<forall>x\<in>set cs. x \<in> set tag_alphabet))"
    by (simp add: regex_test_tag_pattern_iff list_all_iff)
  have short: "length t \<le> 1 \<longrightarrow> validateTag t = Inl (Error (invalid_characters_message t))"
    by (cases t) (auto simp: validateTag_def regex_test_tag_pattern_iff)
  have one: "validateTag ''a'' = Inl (Error (invalid_characters_message ''a''))"
    by (simp add: validateTag_def regex_test_tag_pattern_iff)
  have bang: "validateTag ''!abc'' = Inr ()"
    by (simp add: validateTag_def regex_test_tag_pattern_iff tag_alphabet_def)
  from accept pattern short one bang show ?thesis
    by blast
qed

theorem validateTag_accepts_iff_pattern_witness:
  "validateTag ''v1'' = Inr () \<and>
   validateTag '''' = Inl (Error (invalid_characters_message ''''))"
  using validateTag_accepts_iff_pattern [of "''v1''"] validateTag_accepts_iff_pattern [of "''''"]
  by (simp add: tag_alphabet_def)

text \<open>
  Claim C2. Every valid tag (1 to 128 characters of the alphabet, the first neither
  \<^verbatim>\<open>-\<close> nor \<^verbatim>\<open>.\<close>) is to be accepted. The code does not do so: the one-character tag
  \<^verbatim>\<open>"a"\<close> is valid and \<^verbatim>\<open>validateTag\<close> throws on it, with the message that asks for
  what the tag already satisfies. (Valid tags of two or more characters are accepted:
  \<open>validateTag_accepts_valid_longer\<close>.)
\<close>

theorem validateTag_rejects_single_character:
  "valid_tag ''a'' \<and> validateTag ''a'' = Inl (Error (invalid_characters_message ''a''))"
  by (simp add: valid_tag_def tag_alphabet_def validateTag_def regex_test_tag_pattern_iff)

text \<open>
  Claim C4. A tag of more than 128 characters fails with the error about the length,
  whatever its characters are, since the length is tested first; a tag of at most 128
  characters that does not match the pattern fails with the error about the
  characters; and the two errors can never be confused, their messages differing for
  any two tags.
\<close>

theorem validateTag_too_long:
  "(128 < length t \<longrightarrow> validateTag t = Inl (Error (too_long_message t))) \<and>
   (length t \<le> 128 \<and> \<not> regex_test tag_pattern t \<longrightarrow>
      validateTag t = Inl (Error (invalid_characters_message t))) \<and>
   (\<forall>a b. too_long_message a \<noteq> invalid_characters_message b)"
  by (simp add: validateTag_def messages_differ)

theorem validateTag_too_long_witness:
  "validateTag (replicate 129 (CHR ''-'')) =
     Inl (Error (too_long_message (replicate 129 (CHR ''-'')))) \<and>
   validateTag ''.bad'' = Inl (Error (invalid_characters_message ''.bad''))"
  using validateTag_too_long [of "replicate 129 (CHR ''-'')"] validateTag_too_long [of "''.bad''"]
  by (simp add: regex_test_tag_pattern_iff)

section \<open>Tag extraction\<close>

lemma tag_extraction_single_colon:
  "CHR '':'' \<notin> set a \<Longrightarrow> CHR '':'' \<notin> set b \<Longrightarrow>
   Fn_select 1 (Fn_split (CHR '':'') (a @ CHR '':'' # b)) = Some b \<and>
   after_last_colon (a @ CHR '':'' # b) = b"
  by (simp add: Fn_split_first Fn_split_no_delimiter Fn_select_def after_last_colon_append)


text \<open>
  Claim C1. For the Directory and Asset sources the tag is to be the part of the URI
  after its last \<^verbatim>\<open>:\<close>, so \<^verbatim>\<open>v1.2.3\<close> for the URI with a port. The code selects the
  second piece of the split instead: at that URI both variants return
  \<^verbatim>\<open>5000/repo/image\<close> as \<open>imageTag\<close>. (With exactly one \<^verbatim>\<open>:\<close> in the URI the two
  agree: \<open>tag_extraction_single_colon\<close>.)
\<close>

theorem tag_extraction_port_uri:
  "after_last_colon port_uri = ''v1.2.3'' \<and>
   Fn_select 1 (Fn_split (CHR '':'') port_uri) = Some ''5000/repo/image'' \<and>
   map_sum id imageTag
     (fst (Source_bind (Source_directory path) (example_scope port_uri) ctx w)) =
     Inr (Some ''5000/repo/image'') \<and>
   map_sum id imageTag
     (fst (Source_bind (Source_asset (example_asset port_uri)) scope ctx w)) =
     Inr (Some ''5000/repo/image'')"
proof -
  have last_part: "after_last_colon port_uri = ''v1.2.3''"
    by (simp add: after_last_colon_def port_uri_def)
  have second_part: "Fn_select 1 (Fn_split (CHR '':'') port_uri) = Some ''5000/repo/image''"
    by (simp add: Fn_select_def port_uri_def)
  have directory: "map_sum id imageTag
     (fst (Source_bind (Source_directory path) (example_scope port_uri) ctx w)) =
     Inr (Some ''5000/repo/image'')"
    using second_part by (simp add: Source_directory_def example_scope_def example_asset_def)
  have asset: "map_sum id imageTag
     (fst (Source_bind (Source_asset (example_asset port_uri)) scope ctx w)) =
     Inr (Some ''5000/repo/image'')"
    using second_part by (simp add: Source_asset_def example_asset_def)
  from last_part second_part directory asset show ?thesis
    by simp
qed




section \<open>The destination\<close>

text \<open>
  Claim C3. When the tag override fails \<^verbatim>\<open>validateTag\<close>, the constructor behind
  \<^verbatim>\<open>Destination.ecr\<close> fails with that error: no destination exists on which \<^verbatim>\<open>bind\<close>
  could be called, and the sequence of construction and \<^verbatim>\<open>bind\<close> ends with the error
  and the grants as they were, none issued.
\<close>

theorem Destination_ecr_invalid_tag:
  "validateTag t = Inl e \<Longrightarrow>
   Destination_ecr repo (Some \<lparr>tag = Some t\<rparr>) = Inl e \<and>
   Destination_ecr_bind repo (Some \<lparr>tag = Some t\<rparr>) role w = (Inl e, w)"
  by (simp add: Destination_ecr_def Destination_ecr_bind_def options_tag_def)

theorem Destination_ecr_invalid_tag_witness:
  "validateTag ''.bad'' = Inl (Error (invalid_characters_message ''.bad'')) \<and>
   Destination_ecr example_repository (Some \<lparr>tag = Some ''.bad''\<rparr>) =
     Inl (Error (invalid_characters_message ''.bad'')) \<and>
   Destination_ecr_bind example_repository (Some \<lparr>tag = Some ''.bad''\<rparr>) ''deployer'' [] =
     (Inl (Error (invalid_characters_message ''.bad'')), [])"
proof -
  have invalid: "validateTag ''.bad'' = Inl (Error (invalid_characters_message ''.bad''))"
    by (simp add: validateTag_def regex_test_tag_pattern_iff)
  from invalid Destination_ecr_invalid_tag [OF invalid, of example_repository "''deployer''" "[]"]
  show ?thesis
    by simp
qed

lemma Destination_bind_no_tag:
  "Destination_ecr repo None = Inr (EcrDestination repo None) \<and>
   Destination_ecr repo (Some \<lparr>tag = None\<rparr>) = Inr (EcrDestination repo None) \<and>
   map_sum id destinationTag (fst (Destination_ecr_bind repo None role w)) = Inr None \<and>
   map_sum id destinationTag (fst (Destination_ecr_bind repo (Some \<lparr>tag = None\<rparr>) role w)) =
     Inr None"
  by (simp add: Destination_ecr_def Destination_ecr_bind_def options_tag_def)

lemma Destination_bind_accepted_tag:
  "validateTag t = Inr () \<Longrightarrow>
   map_sum id destinationTag
     (fst (Destination_ecr_bind repo (Some \<lparr>tag = Some t\<rparr>) role w)) = Inr (Some t)"
  by (simp add: Destination_ecr_def Destination_ecr_bind_def options_tag_def)

lemma Destination_bind_valid_longer_tag:
  "valid_tag t \<Longrightarrow> 2 \<le> length t \<Longrightarrow>
   map_sum id destinationTag
     (fst (Destination_ecr_bind repo (Some \<lparr>tag = Some t\<rparr>) role w)) = Inr (Some t)"
  by (rule Destination_bind_accepted_tag) (rule validateTag_accepts_valid_longer)

text \<open>
  Claim C7. Without a tag option the configuration returned by \<^verbatim>\<open>bind\<close> has no
  \<open>destinationTag\<close>, and with a valid tag override its \<open>destinationTag\<close> is to be
  that override. The first half holds (\<open>Destination_bind_no_tag\<close>), and so does the
  second for valid tags of two or more characters
  (\<open>Destination_bind_valid_longer_tag\<close>). For a valid tag of one character the code
  does not do so: \<^verbatim>\<open>"a"\<close> is valid, and \<^verbatim>\<open>Destination.ecr(repo, {tag: "a"})\<close> throws the
  error of \<^verbatim>\<open>validateTag\<close> about the characters, so that no destination is built, no
  grant is issued and no configuration with \<open>destinationTag\<close> \<^verbatim>\<open>"a"\<close> is returned.
\<close>

theorem Destination_ecr_single_character_tag:
  "valid_tag ''a'' \<and>
   Destination_ecr example_repository (Some \<lparr>tag = Some ''a''\<rparr>) =
     Inl (Error (invalid_characters_message ''a'')) \<and>
   Destination_ecr_bind example_repository (Some \<lparr>tag = Some ''a''\<rparr>) ''deployer'' [] =
     (Inl (Error (invalid_characters_message ''a'')), [])"
proof -
  have valid: "valid_tag ''a''"
    by (simp add: valid_tag_def tag_alphabet_def)
  have rejected: "validateTag ''a'' = Inl (Error (invalid_characters_message ''a''))"
    by (simp add: validateTag_def regex_test_tag_pattern_iff)
  have constructor: "Destination_ecr example_repository (Some \<lparr>tag = Some ''a''\<rparr>) =
     Inl (Error (invalid_characters_message ''a''))"
    by (simp add: Destination_ecr_def options_tag_def rejected)
  have sequence: "Destination_ecr_bind example_repository (Some \<lparr>tag = Some ''a''\<rparr>) ''deployer'' [] =
     (Inl (Error (invalid_characters_message ''a'')), [])"
    by (simp add: Destination_ecr_bind_def constructor)
  from valid constructor sequence show ?thesis
    by simp
qed

section \<open>The login command\<close>

text \<open>
  Claim C5. The login configuration is a function of the account and the region alone:
  its command is the fixed text with the two values put in, its type is \<open>ECR\<close> and
  its region is the region given. Every \<^verbatim>\<open>bind\<close> returns this configuration, the
  Directory and Asset sources for the account and region of the stack of the scope,
  the Registry-reference source and the destination for those of the repository,
  whatever the grants issued before and whoever is granted.
\<close>

theorem loginConfig_deterministic:
  "ecrLoginConfig a r =
     \<lparr>loginCommand =
        ''aws ecr get-login-password --region '' @ r @
        '' | docker login --username AWS --password-stdin '' @ a @
        ''.dkr.ecr.'' @ r @ ''.amazonaws.com'',
      loginType = ECR, region = Some r\<rparr> \<and>
   map_sum id SourceConfig.loginConfig (fst (Source_bind (Source_directory path) scope ctx w)) =
     Inr (ecrLoginConfig (stack_account scope) (stack_region scope)) \<and>
   map_sum id SourceConfig.loginConfig (fst (Source_bind (Source_ecr repo t) scope ctx w)) =
     Inr (ecrLoginConfig (env_account repo) (env_region repo)) \<and>
   map_sum id SourceConfig.loginConfig (fst (Source_bind (Source_asset asset) scope ctx w)) =
     Inr (ecrLoginConfig (stack_account scope) (stack_region scope)) \<and>
   map_sum id DestinationConfig.loginConfig (fst (Destination_bind (EcrDestination repo opts) role w)) =
     Inr (ecrLoginConfig (env_account repo) (env_region repo))"
proof -
  have shape: "ecrLoginConfig a r =
     \<lparr>loginCommand =
        ''aws ecr get-login-password --region '' @ r @
        '' | docker login --username AWS --password-stdin '' @ a @
        ''.dkr.ecr.'' @ r @ ''.amazonaws.com'',
      loginType = ECR, region = Some r\<rparr>"
    by (simp add: ecrLoginConfig_def)
  have binds: "map_sum id SourceConfig.loginConfig
       (fst (Source_bind (Source_directory path) scope ctx w)) =
     Inr (ecrLoginConfig (stack_account scope) (stack_region scope)) \<and>
   map_sum id SourceConfig.loginConfig (fst (Source_bind (Source_ecr repo t) scope ctx w)) =
     Inr (ecrLoginConfig (env_account repo) (env_region repo)) \<and>
   map_sum id SourceConfig.loginConfig (fst (Source_bind (Source_asset asset) scope ctx w)) =
     Inr (ecrLoginConfig (stack_account scope) (stack_region scope)) \<and>
   map_sum id DestinationConfig.loginConfig
       (fst (Destination_bind (EcrDestination repo opts) role w)) =
     Inr (ecrLoginConfig (env_account repo) (env_region repo))"
    by (simp add: Source_directory_def Source_ecr_def Source_asset_def Let_def)
  from shape binds show ?thesis
    by (rule conjI)
qed


theorem loginConfig_deterministic_witness:
  "loginCommand (ecrLoginConfig ''123456789012'' ''us-east-1'') =
     ''aws ecr get-login-password --region us-east-1 | docker login --username AWS --password-stdin 123456789012.dkr.ecr.us-east-1.amazonaws.com'' \<and>
   map_sum id DestinationConfig.loginConfig
     (fst (Destination_bind (EcrDestination example_repository None) ''deployer'' [])) =
     Inr (ecrLoginConfig ''123456789012'' ''us-east-1'')"
  using loginConfig_deterministic [of "''123456789012''" "''us-east-1''" "''docker''"
      "example_scope ''''" example_context "[]" example_repository "''v1''" "example_asset ''''"
      None "''deployer''"]
  by (simp add: example_repository_def)

section \<open>The Registry-reference source\<close>

text \<open>
  Claim C6. Binding \<^verbatim>\<open>Source.ecr(repo, t)\<close> returns a configuration whose \<open>imageTag\<close>
  is the string \<open>t\<close> given at construction, for every repository and every string.
\<close>

theorem Source_ecr_bind_imageTag:
  "map_sum id imageTag (fst (Source_bind (Source_ecr repo t) scope ctx w)) = Inr (Some t)"
  by (simp add: Source_ecr_def)

theorem Source_ecr_bind_imageTag_witness:
  "map_sum id imageTag
     (fst (Source_bind (Source_ecr example_repository ''v1'') (example_scope '''') example_context [])) =
     Inr (Some ''v1'')"
  using Source_ecr_bind_imageTag [of example_repository "''v1''" "example_scope ''''" example_context "[]"]
  by simp

section \<open>Binding twice\<close>

text \<open>
  Claim C9. A second \<^verbatim>\<open>bind\<close> on the same instance is to fail with \<^verbatim>\<open>AlreadyBound\<close>.
  The code keeps no record of having been bound: the second \<^verbatim>\<open>bind\<close> of a destination
  returns the configuration again and issues the grant a second time.
\<close>

theorem bind_twice_counterexample:
  "Destination_bind (EcrDestination example_repository None) ''deployer''
     (snd (Destination_bind (EcrDestination example_repository None) ''deployer'' [])) =
     (Inr \<lparr>destinationUri = ''123456789012.dkr.ecr.us-east-1.amazonaws.com/app'',
           loginConfig = ecrLoginConfig ''123456789012'' ''us-east-1'',
           destinationTag = None\<rparr>,
      [GrantPullPush ''123456789012.dkr.ecr.us-east-1.amazonaws.com/app'' ''deployer'',
       GrantPullPush ''123456789012.dkr.ecr.us-east-1.amazonaws.com/app'' ''deployer''])"
  by (simp add: example_repository_def grantPullPush_def options_tag_def)

text \<open>
  Claim C9, as the code has it. \<^verbatim>\<open>bind\<close> has no guard against a second call. For the
  Registry-reference source, the Asset source and the destination, a second \<^verbatim>\<open>bind\<close>
  on the same instance succeeds like the first, with the same configuration, and
  issues the same grant once more. (The second \<^verbatim>\<open>bind\<close> of a Directory source runs the
  packaging step of the library again, which the two files do not decide.)
\<close>

theorem bind_twice_succeeds:
  "(\<exists>cfg. Source_bind (EcrSource repo t) scope ctx w =
       (Inr cfg, w @ [GrantPull (repositoryUri repo) (handlerRole ctx)]) \<and>
     Source_bind (EcrSource repo t) scope ctx (snd (Source_bind (EcrSource repo t) scope ctx w)) =
       (Inr cfg, w @ [GrantPull (repositoryUri repo) (handlerRole ctx),
                      GrantPull (repositoryUri repo) (handlerRole ctx)])) \<and>
   (\<exists>cfg. Source_bind (AssetSource repo ot) scope ctx w =
       (Inr cfg, w @ [GrantPull (repositoryUri repo) (handlerRole ctx)]) \<and>
     Source_bind (AssetSource repo ot) scope ctx (snd (Source_bind (AssetSource repo ot) scope ctx w)) =
       (Inr cfg, w @ [GrantPull (repositoryUri repo) (handlerRole ctx),
                      GrantPull (repositoryUri repo) (handlerRole ctx)])) \<and>
   (\<exists>cfg. Destination_bind (EcrDestination repo opts) role w =
       (Inr cfg, w @ [GrantPullPush (repositoryUri repo) role]) \<and>
     Destination_bind (EcrDestination repo opts) role
         (snd (Destination_bind (EcrDestination repo opts) role w)) =
       (Inr cfg, w @ [GrantPullPush (repositoryUri repo) role,
                      GrantPullPush (repositoryUri repo) role]))"
  by (simp add: grantPull_def grantPullPush_def)

theorem bind_twice_succeeds_witness:
  "\<exists>cfg. Source_bind (EcrSource example_repository ''v1'') (example_scope '''') example_context
       (snd (Source_bind (EcrSource example_repository ''v1'') (example_scope '''') example_context [])) =
     (Inr cfg, [GrantPull ''123456789012.dkr.ecr.us-east-1.amazonaws.com/app'' ''handler'',
                GrantPull ''123456789012.dkr.ecr.us-east-1.amazonaws.com/app'' ''handler''])"
proof -
  from bind_twice_succeeds [of example_repository "''v1''" "example_scope ''''" example_context "[]"]
  obtain cfg where second:
    "Source_bind (EcrSource example_repository ''v1'') (example_scope '''') example_context
       (snd (Source_bind (EcrSource example_repository ''v1'') (example_scope '''') example_context [])) =
     (Inr cfg, [] @ [GrantPull (repositoryUri example_repository) (handlerRole example_context),
                     GrantPull (repositoryUri example_repository) (handlerRole example_context)])"
    by blast
  have "repositoryUri example_repository = ''123456789012.dkr.ecr.us-east-1.amazonaws.com/app''"
    and "handlerRole example_context = ''handler''"
    by (simp_all add: example_repository_def example_context_def)
  with second show ?thesis
    by (auto simp del: Source_bind.simps)
qed

end
